theory Spec2Isabelle
  imports Complex_Main
begin

section \<open>The Python client: \<open>h2o/targetencoder.py\<close>\<close>

subsection \<open>Values and errors\<close>

text \<open>
  A column reference as the constructor of \<open>TargetEncoder\<close> receives it: a positional
  index, a name, or Python's \<open>None\<close> (the default of \<open>y\<close>).
\<close>

datatype colref = NoneRef | Idx int | Name string

text \<open>
  The exceptions a call can end with. \<open>InvalidArgumentError\<close> is what the type check
  \<open>assert_is_type\<close> raises; \<open>UnfittedEncoderError\<close> is Python's AttributeError on reading
  \<open>self._encodingMap\<close> before any \<open>fit\<close> has stored it; \<open>AttributeError\<close> is the read of
  \<open>frame.names\<close> on the default \<open>frame = None\<close>; \<open>TypeError\<close> is the iteration over the
  default \<open>x = None\<close>; \<open>IndexError\<close> is \<open>frame.names[i]\<close> out of range; \<open>AssertionError\<close> is
  the failed \<open>assert\<close> of \<open>transform\<close>; \<open>BackendError\<close> is any failure of the remote
  evaluation of the fit expression.
\<close>

datatype error =
    InvalidArgumentError
  | UnfittedEncoderError
  | AttributeError
  | TypeError
  | IndexError
  | AssertionError
  | BackendError
  | InvalidResponseError
  | MissingFoldError

record h2o_frame =
  names :: "string list"

text \<open>
  What \<open>_eager_map_frame()\<close> hands back, as far as \<open>transform\<close> reads it: the list under
  \<open>map_keys['string']\<close> and, for each entry of \<open>frames\<close>, its \<open>['key']['name']\<close>.
\<close>

record map_frame =
  map_keys_string :: "string list"
  frames_key_name :: "string list"

record target_encoder =
  teColumns :: "colref list option"
  responseColumnName :: colref
  foldColumnName :: colref
  blending :: bool
  inflectionPoint :: real
  smoothing :: real
  encodingMap :: "map_frame option"

text \<open>\<open>__init__\<close> with its defaults; \<open>_encodingMap\<close> is not set.\<close>

definition init :: "colref list option \<Rightarrow> colref \<Rightarrow> colref \<Rightarrow> bool \<Rightarrow> real \<Rightarrow> real \<Rightarrow> target_encoder" where
  "init x y fold_column blended_avg inflection_point smoothing' =
     \<lparr>teColumns = x, responseColumnName = y, foldColumnName = fold_column,
      blending = blended_avg, inflectionPoint = inflection_point, smoothing = smoothing',
      encodingMap = None\<rparr>"

definition init_default :: target_encoder where
  "init_default = init None NoneRef (Name []) True 3 1"

subsection \<open>Resolving column references\<close>

text \<open>
  Subscripting a Python list of length \<open>n\<close>: the indices \<open>0 .. n - 1\<close> read from the front,
  \<open>-n .. -1\<close> from the back, and every other index raises IndexError.
\<close>

definition py_index :: "'a list \<Rightarrow> int \<Rightarrow> error + 'a" where
  "py_index xs i =
     (if 0 \<le> i \<and> i < int (length xs) then Inr (xs ! nat i)
      else if i < 0 \<and> - int (length xs) \<le> i then Inr (xs ! nat (int (length xs) + i))
      else Inl IndexError)"

text \<open>\<open>frame.names[i]\<close>, where \<open>frame\<close> may be the default \<open>None\<close>.\<close>

definition frame_name :: "h2o_frame option \<Rightarrow> int \<Rightarrow> error + string" where
  "frame_name frame i =
     (case frame of None \<Rightarrow> Inl AttributeError | Some fr \<Rightarrow> py_index (names fr) i)"

fun is_int :: "colref \<Rightarrow> bool" where
  "is_int (Idx _) = True"
| "is_int _ = False"

text \<open>
  \<open>list(map(lambda i: frame.names[i], cols))\<close>, reached only when every entry is an integer:
  the entries are looked up from left to right and the first failure ends the call.
\<close>

fun names_of_indices :: "h2o_frame option \<Rightarrow> colref list \<Rightarrow> error + colref list" where
  "names_of_indices frame [] = Inr []"
| "names_of_indices frame (Idx i # cs) =
     (case frame_name frame i of
        Inl e \<Rightarrow> Inl e
      | Inr n \<Rightarrow> (case names_of_indices frame cs of
                    Inl e \<Rightarrow> Inl e
                  | Inr ns \<Rightarrow> Inr (Name n # ns)))"
| "names_of_indices frame (c # cs) = Inl TypeError"

text \<open>Line 73: the new value of \<open>self._teColumns\<close>.\<close>

definition resolve_teColumns :: "h2o_frame option \<Rightarrow> colref list option \<Rightarrow> error + colref list option" where
  "resolve_teColumns frame x =
     (case x of
        None \<Rightarrow> Inl TypeError
      | Some cols \<Rightarrow>
          if list_all is_int cols
          then (case names_of_indices frame cols of Inl e \<Rightarrow> Inl e | Inr ns \<Rightarrow> Inr (Some ns))
          else Inr (Some cols))"

text \<open>Lines 74 and 75: \<open>frame.names[c] if isinstance(c, int) else c\<close>.\<close>

definition resolve_ref :: "h2o_frame option \<Rightarrow> colref \<Rightarrow> error + colref" where
  "resolve_ref frame c =
     (case c of
        Idx i \<Rightarrow> (case frame_name frame i of Inl e \<Rightarrow> Inl e | Inr n \<Rightarrow> Inr (Name n))
      | _ \<Rightarrow> Inr c)"

subsection \<open>fit\<close>

text \<open>
  The remote evaluation \<open>ExprNode("target.encoder.fit", frame, cols, y, fold)._eager_map_frame()\<close>
  is not part of the client: it is a parameter of the model.
\<close>

type_synonym backend_fit =
  "h2o_frame option \<Rightarrow> colref list option \<Rightarrow> colref \<Rightarrow> colref \<Rightarrow> error + map_frame"

text \<open>
  \<open>fit\<close> returns the encoding map or the exception, together with the encoder as the call
  leaves it: each of the lines 73, 74, 75 and 77 assigns its attribute before the next line runs.
\<close>

definition fit :: "backend_fit \<Rightarrow> target_encoder \<Rightarrow> h2o_frame option \<Rightarrow> (error + map_frame) \<times> target_encoder" where
  "fit backend self frame =
     (case resolve_teColumns frame (teColumns self) of
        Inl e \<Rightarrow> (Inl e, self)
      | Inr cols \<Rightarrow>
          let self1 = self\<lparr>teColumns := cols\<rparr> in
          (case resolve_ref frame (responseColumnName self1) of
             Inl e \<Rightarrow> (Inl e, self1)
           | Inr y \<Rightarrow>
               let self2 = self1\<lparr>responseColumnName := y\<rparr> in
               (case resolve_ref frame (foldColumnName self2) of
                  Inl e \<Rightarrow> (Inl e, self2)
                | Inr f \<Rightarrow>
                    let self3 = self2\<lparr>foldColumnName := f\<rparr> in
                    (case backend frame (teColumns self3) (responseColumnName self3) (foldColumnName self3) of
                       Inl e \<Rightarrow> (Inl e, self3)
                     | Inr m \<Rightarrow> (Inr m, self3\<lparr>encodingMap := Some m\<rparr>)))))"

subsection \<open>transform\<close>

text \<open>
  Modelled from the spec: \<open>assert_is_type\<close> of \<open>h2o.utils.typechecks\<close> is not among the
  sources. In \<open>assert_is_type(holdout_type, "kfold", "loo", "none")\<close> the value has to be one
  of the three literals, and any other value fails with \<open>InvalidArgumentError\<close>. The
  argument's default is \<open>None\<close>.
\<close>

definition assert_is_type :: "string option \<Rightarrow> string list \<Rightarrow> error + string" where
  "assert_is_type v literals =
     (case v of
        None \<Rightarrow> Inl InvalidArgumentError
      | Some s \<Rightarrow> if s \<in> set literals then Inr s else Inl InvalidArgumentError)"

text \<open>The expression \<open>transform\<close> builds: the arguments of the node, in the order of the call.\<close>

record transform_expr =
  encodingMapKeys :: "string list"
  encodingMapFramesKeys :: "string list"
  arg_frame :: "h2o_frame option"
  arg_teColumns :: "colref list option"
  arg_holdout_type :: string
  arg_responseColumnName :: colref
  arg_foldColumnName :: colref
  arg_blending :: bool
  arg_inflectionPoint :: real
  arg_smoothing :: real
  arg_noise :: real
  arg_seed :: int
  arg_is_train_or_valid :: bool

text \<open>
  \<open>transform\<close> assigns nothing to \<open>self\<close>, so it is a function of the encoder and the
  arguments: the type check of line 99 first, then the read of \<open>self._encodingMap\<close> and the
  assertion of line 102, then the expression.
\<close>

definition transform :: "target_encoder \<Rightarrow> bool \<Rightarrow> h2o_frame option \<Rightarrow> string option \<Rightarrow> real \<Rightarrow> int \<Rightarrow> error + transform_expr" where
  "transform self is_train_or_valid frame holdout_type noise seed =
     (case assert_is_type holdout_type [''kfold'', ''loo'', ''none''] of
        Inl e \<Rightarrow> Inl e
      | Inr h \<Rightarrow>
          (case encodingMap self of
             None \<Rightarrow> Inl UnfittedEncoderError
           | Some m \<Rightarrow>
               if Some (map Name (map_keys_string m)) \<noteq> teColumns self then Inl AssertionError
               else Inr \<lparr>encodingMapKeys = map_keys_string m,
                         encodingMapFramesKeys = frames_key_name m,
                         arg_frame = frame,
                         arg_teColumns = teColumns self,
                         arg_holdout_type = h,
                         arg_responseColumnName = responseColumnName self,
                         arg_foldColumnName = foldColumnName self,
                         arg_blending = blending self,
                         arg_inflectionPoint = inflectionPoint self,
                         arg_smoothing = smoothing self,
                         arg_noise = noise,
                         arg_seed = seed,
                         arg_is_train_or_valid = is_train_or_valid\<rparr>))"

subsection \<open>Concrete inputs\<close>

text \<open>
  A frame with three columns, an encoding map for the columns \<open>a\<close> and \<open>c\<close>, a backend that
  always answers with it, and the encoder a fit of the columns 0 and -1 leaves behind.
\<close>

definition example_frame :: h2o_frame where
  "example_frame = \<lparr>names = [''a'', ''y'', ''c'']\<rparr>"

definition example_map_frame :: map_frame where
  "example_map_frame = \<lparr>map_keys_string = [''a'', ''c''], frames_key_name = [''k_a'', ''k_c'']\<rparr>"

definition example_backend :: backend_fit where
  "example_backend frame cols y f = Inr example_map_frame"

definition fitted_encoder :: target_encoder where
  "fitted_encoder =
     \<lparr>teColumns = Some [Name ''a'', Name ''c''], responseColumnName = Name ''y'',
      foldColumnName = Name [], blending = True, inflectionPoint = 3, smoothing = 1,
      encodingMap = Some example_map_frame\<rparr>"

definition failing_backend :: backend_fit where
  "failing_backend frame cols y f = Inl BackendError"

section \<open>The encoding computation\<close>

text \<open>
  Modelled from the spec: the encoding computation itself, which the expressions
  \<open>target.encoder.fit\<close> and \<open>target.encoder.transform\<close> ask the remote backend for, is not among
  the sources. The definitions of this section follow the specification's sections 3 and 4:
  its data model, its Fitter and its Transformer.
\<close>

subsection \<open>Data model\<close>








record encoder_config =
  categorical_columns :: "string list"
  response_column :: string
  fold_column :: "string option"
  blending_flag :: bool
  inflection_point :: real
  smoothing_param :: real






subsection \<open>Fitter\<close>








subsection \<open>Transformer\<close>







text \<open>Modelled from the spec: the blending weight of step 4.\<close>

definition lambda :: "real \<Rightarrow> real \<Rightarrow> real \<Rightarrow> real" where
  "lambda ip sm c = 1 / (1 + exp (- (c - ip) / sm))"






text \<open>
  Modelled from the spec: errors are raised at the point of detection. A list is worked
  through from the left, and the first error ends the run.
\<close>

fun traverse :: "('a \<Rightarrow> error + 'b) \<Rightarrow> 'a list \<Rightarrow> error + 'b list" where
  "traverse f [] = Inr []"
| "traverse f (x # xs) =
     (case f x of
        Inl e \<Rightarrow> Inl e
      | Inr y \<Rightarrow> (case traverse f xs of Inl e \<Rightarrow> Inl e | Inr ys \<Rightarrow> Inr (y # ys)))"




subsection \<open>A training frame\<close>






section \<open>Properties of the client\<close>

lemma assert_is_type_holdout:
  "assert_is_type h [''kfold'', ''loo'', ''none''] =
     (if h \<in> {Some ''kfold'', Some ''loo'', Some ''none''} then Inr (the h) else Inl InvalidArgumentError)"
  by (cases h) (auto simp: assert_is_type_def)

lemma names_of_indices_length:
  "names_of_indices frame cs = Inr ns \<Longrightarrow> length ns = length cs"
  by (induction frame cs arbitrary: ns rule: names_of_indices.induct)
     (auto split: sum.splits)

lemma names_of_indices_nth:
  "names_of_indices frame cs = Inr ns \<Longrightarrow> k < length cs \<Longrightarrow>
     \<exists>i n. cs ! k = Idx i \<and> frame_name frame i = Inr n \<and> ns ! k = Name n"
proof (induction frame cs arbitrary: ns k rule: names_of_indices.induct)
  case (2 frame i cs)
  then show ?case by (cases k) (auto split: sum.splits)
qed auto

lemma names_of_indices_not_int:
  "names_of_indices frame cs = Inr ns \<Longrightarrow> \<forall>c \<in> set ns. \<not> is_int c"
  by (induction frame cs arbitrary: ns rule: names_of_indices.induct)
     (auto split: sum.splits)

lemma resolve_ref_idem:
  "resolve_ref frame c = Inr c' \<Longrightarrow> resolve_ref frame2 c' = Inr c'"
  by (cases c) (auto simp: resolve_ref_def split: sum.splits)

lemma resolve_teColumns_idem:
  assumes "resolve_teColumns frame x = Inr x'"
  shows "resolve_teColumns frame2 x' = Inr x'"
proof (cases x)
  case None
  with assms show ?thesis by (simp add: resolve_teColumns_def)
next
  case (Some cols)
  show ?thesis
  proof (cases "list_all is_int cols")
    case False
    with assms Some show ?thesis by (auto simp: resolve_teColumns_def)
  next
    case True
    with assms Some obtain ns where ns: "names_of_indices frame cols = Inr ns" "x' = Some ns"
      by (auto simp: resolve_teColumns_def split: sum.splits)
    show ?thesis
    proof (cases ns)
      case Nil
      with ns show ?thesis by (simp add: resolve_teColumns_def)
    next
      case (Cons a as)
      with ns have "\<not> list_all is_int ns"
        using names_of_indices_not_int [OF ns(1)] by simp
      with ns show ?thesis by (simp add: resolve_teColumns_def)
    qed
  qed
qed


lemma fit_teColumns:
  "fit backend self frame = (r, self') \<Longrightarrow>
     teColumns self' = teColumns self \<or> resolve_teColumns frame (teColumns self) = Inr (teColumns self')"
  by (auto simp: fit_def Let_def split: sum.splits)

lemma fit_responseColumnName:
  "fit backend self frame = (r, self') \<Longrightarrow>
     responseColumnName self' = responseColumnName self
     \<or> resolve_ref frame (responseColumnName self) = Inr (responseColumnName self')"
  by (auto simp: fit_def Let_def split: sum.splits)

lemma fit_foldColumnName:
  "fit backend self frame = (r, self') \<Longrightarrow>
     foldColumnName self' = foldColumnName self
     \<or> resolve_ref frame (foldColumnName self) = Inr (foldColumnName self')"
  by (auto simp: fit_def Let_def split: sum.splits)

lemma fit_success:
  "fit backend self frame = (Inr m, self') \<Longrightarrow>
     resolve_teColumns frame (teColumns self) = Inr (teColumns self')
     \<and> resolve_ref frame (responseColumnName self) = Inr (responseColumnName self')
     \<and> resolve_ref frame (foldColumnName self) = Inr (foldColumnName self')
     \<and> encodingMap self' = Some m"
  by (auto simp: fit_def Let_def split: sum.splits)

lemma fit_failure_keeps:
  "fit backend self frame = (Inl e, self') \<Longrightarrow>
     encodingMap self' = encodingMap self \<and> blending self' = blending self
     \<and> inflectionPoint self' = inflectionPoint self \<and> smoothing self' = smoothing self"
  by (auto simp: fit_def Let_def split: sum.splits)

lemma frame_name_example:
  "frame_name (Some example_frame) 0 = Inr ''a''"
  "frame_name (Some example_frame) 1 = Inr ''y''"
  "frame_name (Some example_frame) (-1) = Inr ''c''"
  "frame_name (Some example_frame) 5 = Inl IndexError"
  by (simp_all add: frame_name_def py_index_def example_frame_def)

lemma fit_example_all_int:
  "fit example_backend (init (Some [Idx 0, Idx (-1)]) (Idx 1) (Name []) True 3 1) (Some example_frame)
     = (Inr example_map_frame, fitted_encoder)"
  by (simp add: fit_def init_def resolve_teColumns_def resolve_ref_def frame_name_example
        example_backend_def fitted_encoder_def)

lemma fit_example_mixed:
  "fit example_backend (init (Some [Idx 0, Name ''c'']) (Idx 1) (Name []) True 3 1) (Some example_frame)
     = (Inr example_map_frame,
        \<lparr>teColumns = Some [Idx 0, Name ''c''], responseColumnName = Name ''y'',
         foldColumnName = Name [], blending = True, inflectionPoint = 3, smoothing = 1,
         encodingMap = Some example_map_frame\<rparr>)"
  by (simp add: fit_def init_def resolve_teColumns_def resolve_ref_def frame_name_example
        example_backend_def)


lemma fit_example_second:
  "fit example_backend fitted_encoder (Some \<lparr>names = [''z'']\<rparr>) = (Inr example_map_frame, fitted_encoder)"
  by (simp add: fit_def resolve_teColumns_def resolve_ref_def example_backend_def fitted_encoder_def)

lemma fit_example_failure:
  "fit example_backend (init (Some [Idx 0]) (Idx 5) (Name []) True 3 1) (Some example_frame)
     = (Inl IndexError, init (Some [Name ''a'']) (Idx 5) (Name []) True 3 1)"
  by (simp add: fit_def init_def resolve_teColumns_def resolve_ref_def frame_name_example)

text \<open>
  C5: \<open>transform\<close> accepts exactly the holdout types "kfold", "loo" and "none". Any other
  value, the default \<open>None\<close> included, ends the call with \<open>InvalidArgumentError\<close> whatever the
  encoder and the other arguments are, so before any output; an accepted value never ends it
  with that error, and on a fitted encoder whose map keys are its columns it yields the
  expression carrying that holdout type.
\<close>

theorem transform_holdout_type_checked:
  "(h \<notin> {Some ''kfold'', Some ''loo'', Some ''none''} \<longrightarrow>
      transform self t fr h noise seed = Inl InvalidArgumentError)
   \<and> (h \<in> {Some ''kfold'', Some ''loo'', Some ''none''} \<longrightarrow>
      transform self t fr h noise seed \<noteq> Inl InvalidArgumentError)
   \<and> (h \<in> {Some ''kfold'', Some ''loo'', Some ''none''} \<and> encodingMap self = Some m
        \<and> teColumns self = Some (map Name (map_keys_string m)) \<longrightarrow>
      (\<exists>ex. transform self t fr h noise seed = Inr ex \<and> Some (arg_holdout_type ex) = h))"
  by (auto simp: transform_def assert_is_type_holdout split: option.splits)

theorem transform_holdout_type_checked_witness:
  "Some ''KFold'' \<notin> {Some ''kfold'', Some ''loo'', Some ''none''}
   \<and> transform fitted_encoder True (Some example_frame) (Some ''KFold'') (-1) (-1) = Inl InvalidArgumentError
   \<and> Some ''loo'' \<in> {Some ''kfold'', Some ''loo'', Some ''none''}
   \<and> encodingMap fitted_encoder = Some example_map_frame
   \<and> teColumns fitted_encoder = Some (map Name (map_keys_string example_map_frame))
   \<and> (\<exists>ex. transform fitted_encoder True (Some example_frame) (Some ''loo'') (-1) (-1) = Inr ex
         \<and> Some (arg_holdout_type ex) = Some ''loo'')"
  using transform_holdout_type_checked [of "Some ''KFold''" fitted_encoder True "Some example_frame" "-1" "-1" example_map_frame]
    transform_holdout_type_checked [of "Some ''loo''" fitted_encoder True "Some example_frame" "-1" "-1" example_map_frame]
  by (simp add: fitted_encoder_def example_map_frame_def)

text \<open>
  C6: at fit time integer column references are replaced by \<open>frame.names[i]\<close>, once. A
  categorical-column list with an entry that is no integer is left as it is, every entry of it,
  whatever the outcome of the call. After a successful fit a list of integers has become the
  list of the names at those indices, an integer response or fold reference has become the
  name at its index, and any later fit, on any frame, leaves the three references unchanged.
\<close>

theorem fit_resolves_indices_once:
  assumes "fit backend self frame = (r, self')"
  shows "(\<forall>cols. teColumns self = Some cols \<and> \<not> list_all is_int cols \<longrightarrow> teColumns self' = Some cols)
    \<and> (\<forall>m cols. r = Inr m \<and> teColumns self = Some cols \<and> list_all is_int cols \<longrightarrow>
          (\<exists>ns. teColumns self' = Some ns \<and> length ns = length cols
             \<and> (\<forall>k < length cols. \<exists>i n. cols ! k = Idx i \<and> frame_name frame i = Inr n \<and> ns ! k = Name n)))
    \<and> (\<forall>m i. r = Inr m \<and> responseColumnName self = Idx i \<longrightarrow>
          (\<exists>n. frame_name frame i = Inr n \<and> responseColumnName self' = Name n))
    \<and> (\<forall>m i. r = Inr m \<and> foldColumnName self = Idx i \<longrightarrow>
          (\<exists>n. frame_name frame i = Inr n \<and> foldColumnName self' = Name n))
    \<and> (\<forall>m backend2 frame2 r2 self''. r = Inr m \<and> fit backend2 self' frame2 = (r2, self'') \<longrightarrow>
          teColumns self'' = teColumns self' \<and> responseColumnName self'' = responseColumnName self'
          \<and> foldColumnName self'' = foldColumnName self')"
proof -
  have A: "\<forall>cols. teColumns self = Some cols \<and> \<not> list_all is_int cols \<longrightarrow> teColumns self' = Some cols"
    using fit_teColumns [OF assms] by (auto simp: resolve_teColumns_def)
  have B: "\<forall>m cols. r = Inr m \<and> teColumns self = Some cols \<and> list_all is_int cols \<longrightarrow>
          (\<exists>ns. teColumns self' = Some ns \<and> length ns = length cols
             \<and> (\<forall>k < length cols. \<exists>i n. cols ! k = Idx i \<and> frame_name frame i = Inr n \<and> ns ! k = Name n))"
  proof (intro allI impI)
    fix m cols assume a: "r = Inr m \<and> teColumns self = Some cols \<and> list_all is_int cols"
    with assms have "resolve_teColumns frame (Some cols) = Inr (teColumns self')"
      using fit_success by fastforce
    with a obtain ns where ns: "names_of_indices frame cols = Inr ns" "teColumns self' = Some ns"
      by (auto simp: resolve_teColumns_def split: sum.splits)
    show "\<exists>ns. teColumns self' = Some ns \<and> length ns = length cols
             \<and> (\<forall>k < length cols. \<exists>i n. cols ! k = Idx i \<and> frame_name frame i = Inr n \<and> ns ! k = Name n)"
      using ns names_of_indices_length [OF ns(1)] names_of_indices_nth [OF ns(1)] by blast
  qed
  have C: "\<forall>m i. r = Inr m \<and> responseColumnName self = Idx i \<longrightarrow>
          (\<exists>n. frame_name frame i = Inr n \<and> responseColumnName self' = Name n)"
  proof (intro allI impI)
    fix m i assume a: "r = Inr m \<and> responseColumnName self = Idx i"
    with assms have "resolve_ref frame (Idx i) = Inr (responseColumnName self')"
      using fit_success by fastforce
    then show "\<exists>n. frame_name frame i = Inr n \<and> responseColumnName self' = Name n"
      by (auto simp: resolve_ref_def split: sum.splits)
  qed
  have D: "\<forall>m i. r = Inr m \<and> foldColumnName self = Idx i \<longrightarrow>
          (\<exists>n. frame_name frame i = Inr n \<and> foldColumnName self' = Name n)"
  proof (intro allI impI)
    fix m i assume a: "r = Inr m \<and> foldColumnName self = Idx i"
    with assms have "resolve_ref frame (Idx i) = Inr (foldColumnName self')"
      using fit_success by fastforce
    then show "\<exists>n. frame_name frame i = Inr n \<and> foldColumnName self' = Name n"
      by (auto simp: resolve_ref_def split: sum.splits)
  qed
  have E: "\<forall>m backend2 frame2 r2 self''. r = Inr m \<and> fit backend2 self' frame2 = (r2, self'') \<longrightarrow>
          teColumns self'' = teColumns self' \<and> responseColumnName self'' = responseColumnName self'
          \<and> foldColumnName self'' = foldColumnName self'"
  proof (intro allI impI)
    fix m backend2 frame2 r2 self''
    assume a: "r = Inr m \<and> fit backend2 self' frame2 = (r2, self'')"
    with assms have first: "fit backend self frame = (Inr m, self')" by simp
    from a have second: "fit backend2 self' frame2 = (r2, self'')" by simp
    note s = fit_success [OF first]
    have t: "resolve_teColumns frame2 (teColumns self') = Inr (teColumns self')"
      using s resolve_teColumns_idem by blast
    have y: "resolve_ref frame2 (responseColumnName self') = Inr (responseColumnName self')"
      using s resolve_ref_idem by blast
    have f: "resolve_ref frame2 (foldColumnName self') = Inr (foldColumnName self')"
      using s resolve_ref_idem by blast
    show "teColumns self'' = teColumns self' \<and> responseColumnName self'' = responseColumnName self'
          \<and> foldColumnName self'' = foldColumnName self'"
      using fit_teColumns [OF second] fit_responseColumnName [OF second] fit_foldColumnName [OF second] t y f
      by auto
  qed
  show ?thesis
    by (rule conjI [OF A conjI [OF B conjI [OF C conjI [OF D E]]]])
qed

theorem fit_resolves_indices_once_witness:
  "fit example_backend (init (Some [Idx 0, Idx (-1)]) (Idx 1) (Name []) True 3 1) (Some example_frame)
     = (Inr example_map_frame, fitted_encoder)
   \<and> list_all is_int [Idx 0, Idx (-1)]
   \<and> teColumns fitted_encoder = Some [Name ''a'', Name ''c'']
   \<and> responseColumnName fitted_encoder = Name ''y''
   \<and> fit example_backend fitted_encoder (Some \<lparr>names = [''z'']\<rparr>) = (Inr example_map_frame, fitted_encoder)
   \<and> \<not> list_all is_int [Idx 0, Name ''c'']
   \<and> teColumns (snd (fit example_backend (init (Some [Idx 0, Name ''c'']) (Idx 1) (Name []) True 3 1)
         (Some example_frame))) = Some [Idx 0, Name ''c'']"
  using fit_resolves_indices_once [OF fit_example_all_int]
    fit_resolves_indices_once [OF fit_example_mixed]
    fit_example_all_int fit_example_mixed fit_example_second
  by (simp add: fitted_encoder_def init_def)

text \<open>
  C8, as stated, fails: with columns \<open>[0]\<close> and response index 5 on a frame of three columns,
  line 73 stores the resolved list and line 74 raises IndexError, so the failing \<open>fit\<close> leaves
  an encoder that differs from the one it was called on.
\<close>

theorem fit_not_atomic_counterexample:
  "fit example_backend (init (Some [Idx 0]) (Idx 5) (Name []) True 3 1) (Some example_frame)
     = (Inl IndexError, init (Some [Name ''a'']) (Idx 5) (Name []) True 3 1)
   \<and> init (Some [Name ''a'']) (Idx 5) (Name []) True 3 1 \<noteq> init (Some [Idx 0]) (Idx 5) (Name []) True 3 1"
  by (simp add: fit_def init_def resolve_teColumns_def resolve_ref_def frame_name_example)

lemma fit_failure_cases:
  assumes "fit backend self frame = (Inl e, self')"
  shows "(resolve_teColumns frame (teColumns self) = Inl e \<and> self' = self)
    \<or> (\<exists>cols. resolve_teColumns frame (teColumns self) = Inr cols
          \<and> resolve_ref frame (responseColumnName self) = Inl e
          \<and> self' = self\<lparr>teColumns := cols\<rparr>)
    \<or> (\<exists>cols y. resolve_teColumns frame (teColumns self) = Inr cols
          \<and> resolve_ref frame (responseColumnName self) = Inr y
          \<and> resolve_ref frame (foldColumnName self) = Inl e
          \<and> self' = self\<lparr>teColumns := cols, responseColumnName := y\<rparr>)
    \<or> (\<exists>cols y f. resolve_teColumns frame (teColumns self) = Inr cols
          \<and> resolve_ref frame (responseColumnName self) = Inr y
          \<and> resolve_ref frame (foldColumnName self) = Inr f
          \<and> backend frame cols y f = Inl e
          \<and> self' = self\<lparr>teColumns := cols, responseColumnName := y, foldColumnName := f\<rparr>)"
  using assms by (auto simp: fit_def Let_def split: sum.splits)

lemma fit_failure_no_index:
  assumes "fit backend self frame = (Inl e, self')"
    and n: "\<forall>cols. teColumns self = Some cols \<longrightarrow> cols = [] \<or> \<not> list_all is_int cols"
      "\<not> is_int (responseColumnName self)" "\<not> is_int (foldColumnName self)"
  shows "self' = self"
proof -
  have t: "resolve_teColumns frame (teColumns self) = Inr (teColumns self)
           \<or> (\<exists>e. resolve_teColumns frame (teColumns self) = Inl e)"
    using n(1) by (cases "teColumns self") (auto simp: resolve_teColumns_def)
  have y: "resolve_ref frame (responseColumnName self) = Inr (responseColumnName self)"
    using n(2) by (cases "responseColumnName self") (auto simp: resolve_ref_def)
  have f: "resolve_ref frame (foldColumnName self) = Inr (foldColumnName self)"
    using n(3) by (cases "foldColumnName self") (auto simp: resolve_ref_def)
  from t show ?thesis
    using assms(1) y f by (auto simp: fit_def Let_def split: sum.splits)
qed

lemma fit_example_failure_line73:
  "fit example_backend (init (Some [Idx 0, Idx 7]) (Idx 1) (Name []) True 3 1) (Some example_frame)
     = (Inl IndexError, init (Some [Idx 0, Idx 7]) (Idx 1) (Name []) True 3 1)"
  by (simp add: fit_def init_def resolve_teColumns_def resolve_ref_def frame_name_def py_index_def
        example_frame_def)

lemma fit_example_failure_line75:
  "fit example_backend (init (Some [Idx 0]) (Idx 1) (Idx 5) True 3 1) (Some example_frame)
     = (Inl IndexError, init (Some [Name ''a'']) (Name ''y'') (Idx 5) True 3 1)"
  by (simp add: fit_def init_def resolve_teColumns_def resolve_ref_def frame_name_example)

lemma fit_example_backend_failure:
  "fit failing_backend (init (Some [Name ''a'']) (Name ''y'') (Name []) True 3 1) (Some example_frame)
     = (Inl BackendError, init (Some [Name ''a'']) (Name ''y'') (Name []) True 3 1)"
  by (simp add: fit_def init_def resolve_teColumns_def resolve_ref_def failing_backend_def)

lemma fit_example_backend_failure_resolved:
  "fit failing_backend (init (Some [Idx 0]) (Idx 1) (Idx (- 1)) True 3 1) (Some example_frame)
     = (Inl BackendError, init (Some [Name ''a'']) (Name ''y'') (Name ''c'') True 3 1)"
  by (simp add: fit_def init_def resolve_teColumns_def resolve_ref_def frame_name_example
        failing_backend_def)

text \<open>
  C8, amended: a failing \<open>fit\<close> returns the error alone and leaves the stored encoding map
  and the blending settings as they were. The column references that the lines before the
  failing line assigned hold their resolved values, an integer index replaced by
  \<open>frame.names[i]\<close> and anything else as it was; the reference of the failing line and those of
  the lines after it keep the values they had. So a failure at line 73 changes nothing, a
  failure at line 74 leaves the categorical columns resolved, a failure at line 75 the
  categorical columns and the response, and a failure of the remote evaluation all three.
  An encoder with no integer reference to resolve is left exactly as it was. (\<open>transform\<close>
  assigns nothing to the encoder and returns either the error or the whole expression.)
\<close>

theorem fit_failure_state:
  assumes "fit backend self frame = (Inl e, self')"
  shows "encodingMap self' = encodingMap self \<and> blending self' = blending self
    \<and> inflectionPoint self' = inflectionPoint self \<and> smoothing self' = smoothing self
    \<and> ((resolve_teColumns frame (teColumns self) = Inl e \<and> self' = self)
       \<or> (\<exists>cols. resolve_teColumns frame (teColumns self) = Inr cols
             \<and> resolve_ref frame (responseColumnName self) = Inl e
             \<and> self' = self\<lparr>teColumns := cols\<rparr>)
       \<or> (\<exists>cols y. resolve_teColumns frame (teColumns self) = Inr cols
             \<and> resolve_ref frame (responseColumnName self) = Inr y
             \<and> resolve_ref frame (foldColumnName self) = Inl e
             \<and> self' = self\<lparr>teColumns := cols, responseColumnName := y\<rparr>)
       \<or> (\<exists>cols y f. resolve_teColumns frame (teColumns self) = Inr cols
             \<and> resolve_ref frame (responseColumnName self) = Inr y
             \<and> resolve_ref frame (foldColumnName self) = Inr f
             \<and> backend frame cols y f = Inl e
             \<and> self' = self\<lparr>teColumns := cols, responseColumnName := y, foldColumnName := f\<rparr>))
    \<and> ((\<forall>cols. teColumns self = Some cols \<longrightarrow> cols = [] \<or> \<not> list_all is_int cols)
         \<and> \<not> is_int (responseColumnName self) \<and> \<not> is_int (foldColumnName self) \<longrightarrow> self' = self)"
proof -
  note keeps = fit_failure_keeps [OF assms]
  note cases = fit_failure_cases [OF assms]
  have unchanged: "(\<forall>cols. teColumns self = Some cols \<longrightarrow> cols = [] \<or> \<not> list_all is_int cols)
         \<and> \<not> is_int (responseColumnName self) \<and> \<not> is_int (foldColumnName self) \<longrightarrow> self' = self"
    using fit_failure_no_index [OF assms] by blast
  from keeps have k1: "encodingMap self' = encodingMap self" and k2: "blending self' = blending self"
    and k3: "inflectionPoint self' = inflectionPoint self" and k4: "smoothing self' = smoothing self"
    by simp_all
  show ?thesis
    by (rule conjI [OF k1 conjI [OF k2 conjI [OF k3 conjI [OF k4 conjI [OF cases unchanged]]]]])
qed

theorem fit_failure_state_witness:
  "fit example_backend (init (Some [Idx 0, Idx 7]) (Idx 1) (Name []) True 3 1) (Some example_frame)
     = (Inl IndexError, init (Some [Idx 0, Idx 7]) (Idx 1) (Name []) True 3 1)
   \<and> resolve_teColumns (Some example_frame) (Some [Idx 0, Idx 7]) = Inl IndexError
   \<and> fit example_backend (init (Some [Idx 0]) (Idx 5) (Name []) True 3 1) (Some example_frame)
     = (Inl IndexError, init (Some [Name ''a'']) (Idx 5) (Name []) True 3 1)
   \<and> resolve_teColumns (Some example_frame) (Some [Idx 0]) = Inr (Some [Name ''a''])
   \<and> resolve_ref (Some example_frame) (Idx 5) = Inl IndexError
   \<and> encodingMap (init (Some [Name ''a'']) (Idx 5) (Name []) True 3 1)
       = encodingMap (init (Some [Idx 0]) (Idx 5) (Name []) True 3 1)
   \<and> fit example_backend (init (Some [Idx 0]) (Idx 1) (Idx 5) True 3 1) (Some example_frame)
     = (Inl IndexError, init (Some [Name ''a'']) (Name ''y'') (Idx 5) True 3 1)
   \<and> fit failing_backend (init (Some [Idx 0]) (Idx 1) (Idx (- 1)) True 3 1) (Some example_frame)
     = (Inl BackendError, init (Some [Name ''a'']) (Name ''y'') (Name ''c'') True 3 1)
   \<and> \<not> list_all is_int [Name ''a''] \<and> \<not> is_int (Name ''y'') \<and> \<not> is_int (Name [])
   \<and> fit failing_backend (init (Some [Name ''a'']) (Name ''y'') (Name []) True 3 1) (Some example_frame)
     = (Inl BackendError, init (Some [Name ''a'']) (Name ''y'') (Name []) True 3 1)"
  using fit_failure_state [OF fit_example_failure_line73] fit_example_failure_line73
    fit_failure_state [OF fit_example_failure] fit_example_failure
    fit_failure_state [OF fit_example_failure_line75] fit_example_failure_line75
    fit_failure_state [OF fit_example_backend_failure_resolved] fit_example_backend_failure_resolved
    fit_failure_state [OF fit_example_backend_failure] fit_example_backend_failure
  by (simp add: init_def resolve_teColumns_def resolve_ref_def frame_name_example frame_name_def
        py_index_def example_frame_def)

text \<open>
  C9, as stated, fails: on an encoder that was never fitted, a call with a holdout type that
  is not accepted ends at the type check of line 99, with \<open>InvalidArgumentError\<close>, before the
  encoding map is read.
\<close>

theorem transform_before_fit_counterexample:
  "encodingMap init_default = None
   \<and> transform init_default True (Some example_frame) (Some ''KFold'') (-1) (-1) = Inl InvalidArgumentError
   \<and> transform init_default True (Some example_frame) (Some ''KFold'') (-1) (-1) \<noteq> Inl UnfittedEncoderError"
  by (simp add: transform_def assert_is_type_def init_default_def init_def)

text \<open>
  C9, amended: on an encoder without a stored encoding map every call of \<open>transform\<close> fails
  and yields no expression; the error is \<open>UnfittedEncoderError\<close> when the holdout type is one
  of the three accepted values and \<open>InvalidArgumentError\<close> otherwise.
\<close>

theorem transform_before_fit:
  assumes "encodingMap self = None"
  shows "(\<exists>e. transform self t fr h noise seed = Inl e)
    \<and> (h \<in> {Some ''kfold'', Some ''loo'', Some ''none''} \<longrightarrow>
          transform self t fr h noise seed = Inl UnfittedEncoderError)
    \<and> (h \<notin> {Some ''kfold'', Some ''loo'', Some ''none''} \<longrightarrow>
          transform self t fr h noise seed = Inl InvalidArgumentError)"
  using assms by (auto simp: transform_def assert_is_type_holdout)

theorem transform_before_fit_witness:
  "encodingMap init_default = None
   \<and> Some ''kfold'' \<in> {Some ''kfold'', Some ''loo'', Some ''none''}
   \<and> transform init_default True (Some example_frame) (Some ''kfold'') (-1) (-1) = Inl UnfittedEncoderError
   \<and> None \<notin> {Some ''kfold'', Some ''loo'', Some ''none''}
   \<and> transform init_default True (Some example_frame) None (-1) (-1) = Inl InvalidArgumentError"
  using transform_before_fit [of init_default True "Some example_frame" "Some ''kfold''" "-1" "-1"]
    transform_before_fit [of init_default True "Some example_frame" None "-1" "-1"]
  by (simp add: init_default_def init_def)

text \<open>
  C10, as stated, fails: with a stored map whose keys differ from the configured columns and
  a holdout type that is not accepted, the call ends at the type check of line 99 and the
  assertion of line 102 is never reached.
\<close>

theorem transform_map_keys_counterexample:
  "encodingMap (fitted_encoder\<lparr>teColumns := Some [Name ''c'', Name ''a'']\<rparr>) = Some example_map_frame
   \<and> Some (map Name (map_keys_string example_map_frame)) \<noteq> Some [Name ''c'', Name ''a'']
   \<and> transform (fitted_encoder\<lparr>teColumns := Some [Name ''c'', Name ''a'']\<rparr>) True (Some example_frame)
        (Some ''KFold'') (-1) (-1) = Inl InvalidArgumentError
   \<and> transform (fitted_encoder\<lparr>teColumns := Some [Name ''c'', Name ''a'']\<rparr>) True (Some example_frame)
        (Some ''KFold'') (-1) (-1) \<noteq> Inl AssertionError"
  by (simp add: transform_def assert_is_type_def fitted_encoder_def example_map_frame_def)

text \<open>
  C10, amended: a call of \<open>transform\<close> that succeeds has found the stored map's string keys
  equal, as a list, to the configured categorical columns, and hands both on in the
  expression. When the two lists differ the call fails without building the expression, and
  with the assertion failure whenever the holdout type is one of the three accepted values.
\<close>

theorem transform_checks_map_keys:
  "(transform self t fr h noise seed = Inr ex \<longrightarrow>
      (\<exists>m. encodingMap self = Some m \<and> teColumns self = Some (map Name (map_keys_string m))
         \<and> encodingMapKeys ex = map_keys_string m \<and> arg_teColumns ex = teColumns self))
   \<and> (encodingMap self = Some m \<and> teColumns self \<noteq> Some (map Name (map_keys_string m)) \<longrightarrow>
        (\<exists>e. transform self t fr h noise seed = Inl e))
   \<and> (encodingMap self = Some m \<and> teColumns self \<noteq> Some (map Name (map_keys_string m))
        \<and> h \<in> {Some ''kfold'', Some ''loo'', Some ''none''} \<longrightarrow>
        transform self t fr h noise seed = Inl AssertionError)"
  by (auto simp: transform_def assert_is_type_holdout split: option.splits)

theorem transform_checks_map_keys_witness:
  "encodingMap (fitted_encoder\<lparr>teColumns := Some [Name ''c'', Name ''a'']\<rparr>) = Some example_map_frame
   \<and> teColumns (fitted_encoder\<lparr>teColumns := Some [Name ''c'', Name ''a'']\<rparr>)
        \<noteq> Some (map Name (map_keys_string example_map_frame))
   \<and> Some ''none'' \<in> {Some ''kfold'', Some ''loo'', Some ''none''}
   \<and> transform (fitted_encoder\<lparr>teColumns := Some [Name ''c'', Name ''a'']\<rparr>) False (Some example_frame)
        (Some ''none'') 0 1234 = Inl AssertionError
   \<and> (\<exists>ex. transform fitted_encoder False (Some example_frame) (Some ''none'') 0 1234 = Inr ex
         \<and> encodingMapKeys ex = [''a'', ''c''] \<and> arg_teColumns ex = Some [Name ''a'', Name ''c''])"
  using transform_checks_map_keys [of "fitted_encoder\<lparr>teColumns := Some [Name ''c'', Name ''a'']\<rparr>"
      False "Some example_frame" "Some ''none''" 0 1234 _ example_map_frame]
    transform_checks_map_keys [of fitted_encoder False "Some example_frame" "Some ''none''" 0 1234 _ example_map_frame]
  by (simp add: fitted_encoder_def example_map_frame_def transform_def assert_is_type_def)

section \<open>Properties of the encoding computation\<close>

























lemma lambda_strict:
  assumes "0 < sm" "c1 < c2"
  shows "lambda ip sm c1 < lambda ip sm c2"
proof -
  have "- (c2 - ip) / sm < - (c1 - ip) / sm"
    using assms by (simp add: divide_strict_right_mono)
  then have "exp (- (c2 - ip) / sm) < exp (- (c1 - ip) / sm)" by simp
  then have "1 + exp (- (c2 - ip) / sm) < 1 + exp (- (c1 - ip) / sm)" by simp
  moreover have "0 < 1 + exp (- (c2 - ip) / sm)"
    by (simp add: add_pos_pos)
  ultimately have "1 / (1 + exp (- (c1 - ip) / sm)) < 1 / (1 + exp (- (c2 - ip) / sm))"
    by (simp add: frac_less2)
  then show ?thesis by (simp add: lambda_def)
qed

text \<open>
  C3: for a positive inflection point and a positive smoothing, the blending weight
  \<open>lambda\<close> grows with the count, weakly and strictly, and at a count equal to the inflection
  point it is exactly one half. The count ranges over the reals, so over every integer count
  as well.
\<close>

theorem lambda_monotone_half:
  assumes "0 < ip" "0 < sm"
  shows "(c1 \<le> c2 \<longrightarrow> lambda ip sm c1 \<le> lambda ip sm c2)
    \<and> (c1 < c2 \<longrightarrow> lambda ip sm c1 < lambda ip sm c2)
    \<and> lambda ip sm ip = 1 / 2"
proof -
  have strict: "c1 < c2 \<longrightarrow> lambda ip sm c1 < lambda ip sm c2"
    using lambda_strict [OF assms(2)] by blast
  have weak: "c1 \<le> c2 \<longrightarrow> lambda ip sm c1 \<le> lambda ip sm c2"
  proof
    assume "c1 \<le> c2"
    then consider "c1 = c2" | "c1 < c2" by linarith
    then show "lambda ip sm c1 \<le> lambda ip sm c2"
    proof cases
      case 1
      then show ?thesis by simp
    next
      case 2
      then show ?thesis using lambda_strict [OF assms(2)] by (simp add: less_imp_le)
    qed
  qed
  have half: "lambda ip sm ip = 1 / 2"
    by (simp add: lambda_def)
  from weak strict half show ?thesis by blast
qed

theorem lambda_monotone_half_witness:
  "(0::real) < 3 \<and> (0::real) < 1 \<and> (2::real) \<le> 4 \<and> (2::real) < 4
   \<and> lambda 3 1 2 \<le> lambda 3 1 4 \<and> lambda 3 1 2 < lambda 3 1 4 \<and> lambda 3 1 3 = 1 / 2"
  using lambda_monotone_half [of 3 1 2 4] by simp



lemma traverse_cong:
  "(\<And>x. x \<in> set xs \<Longrightarrow> f x = g x) \<Longrightarrow> traverse f xs = traverse g xs"
  by (induction xs) (auto split: sum.splits)





















end
